theory Spec2Isabelle
  imports Main
begin

section \<open>JavaScript values and effects\<close>

text \<open>
  The library wraps arbitrary JavaScript values, so the embedding works over a universe
  of run-time values.  Objects carry an identity (\<open>ref\<close>): two objects are the same
  reference exactly when their identities agree; primitives have none.  The universe holds
  what the library's branches distinguish: primitives, arrays, plain objects (string keys
  only, hence no \<open>Symbol.iterator\<close> member), instances of \<open>Error\<close> with their
  message, and functions.  A number's payload is opaque to the library (it is never
  computed with) and is kept as an integer.  Only iteration, cloning and the adapter's
  default handling of a caught value look inside a wrapped value; every other operation
  passes it on untouched.
\<close>

type_synonym ref = nat

datatype jsval =
    JUndefined
  | JNull
  | JBool bool
  | JNum int
  | JStr string
  | JArray ref "jsval list"
  | JObject ref "(string \<times> jsval) list"
  | JError ref string
  | JFunction ref

text \<open>
  The world a call runs in: the allocator's next unused identity, the text that
  \<open>new Error().stack\<close> reads at this point (absent on engines without it), the
  argument lists of the \<open>console.warn\<close> calls so far, and the client's own state,
  which callbacks may read and write.
\<close>

record 'u world =
  nextRef :: ref
  errorStack :: "string option"
  console :: "jsval list list"
  user :: 'u

text \<open>
  A call that may throw returns \<open>Inl\<close> of the thrown value or \<open>Inr\<close> of its
  result, with the world it leaves behind.  Callbacks handed to the library are such
  calls: they may throw, allocate and change the client's state.
\<close>

type_synonym ('a, 'u) js = "'u world \<Rightarrow> (jsval + 'a) \<times> 'u world"

definition new_Error :: "string \<Rightarrow> 'u world \<Rightarrow> jsval \<times> 'u world" where
  "new_Error message w = (JError (nextRef w) message, w\<lparr>nextRef := Suc (nextRef w)\<rparr>)"

definition throw_new_Error :: "string \<Rightarrow> ('a, 'u) js" where
  "throw_new_Error message w = (case new_Error message w of (e, w') \<Rightarrow> (Inl e, w'))"

subsection \<open>String and array built-ins the constructor of \<open>ErrImpl\<close> uses\<close>

text \<open>\<open>s.split('\n')\<close>: never empty; the empty string gives one empty line.\<close>

fun split_nl :: "string \<Rightarrow> string list" where
  "split_nl [] = [[]]"
| "split_nl (c # cs) =
     (if c = CHR 0x0A then [] # split_nl cs
      else (case split_nl cs of [] \<Rightarrow> [[c]] | l # ls \<Rightarrow> (c # l) # ls))"

text \<open>\<open>lines.join('\n')\<close>.\<close>

fun join_nl :: "string list \<Rightarrow> string" where
  "join_nl [] = []"
| "join_nl [l] = l"
| "join_nl (l # ls) = l @ CHR 0x0A # join_nl ls"

text \<open>\<open>s.includes(sub)\<close>: \<open>sub\<close> occurs in \<open>s\<close> as a contiguous run.\<close>

fun str_includes :: "string \<Rightarrow> string \<Rightarrow> bool" where
  "str_includes [] sub = (sub = [])"
| "str_includes (c # cs) sub = (take (length sub) (c # cs) = sub \<or> str_includes cs sub)"

section \<open>Result, later revision (src/src/result.ts)\<close>

text \<open>
  \<open>OkImpl\<close> holds \<open>#value\<close>; \<open>ErrImpl\<close> holds \<open>#stack\<close> and \<open>#value\<close>.  Each
  container is an object, so it carries its identity first.
\<close>

datatype result =
    OkImpl ref jsval
  | ErrImpl ref string jsval

text \<open>
  The constructor of \<open>ErrImpl\<close> skips the frames of its own making: starting at line 1
  of the stack text it steps over every non-empty line that mentions \<open>ErrImpl\<close> or
  \<open> Err \<close>, and keeps the rest.  An index past the end reads \<open>undefined\<close>, which
  ends the loop like an empty line does.
\<close>

function firstRelevantFrame :: "string list \<Rightarrow> nat \<Rightarrow> nat" where
  "firstRelevantFrame stackLines i =
     (if i < length stackLines \<and> stackLines ! i \<noteq> [] \<and>
         (str_includes (stackLines ! i) ''ErrImpl'' \<or> str_includes (stackLines ! i) '' Err '')
      then firstRelevantFrame stackLines (Suc i)
      else i)"
  by pat_completeness auto
termination
  by (relation "measure (\<lambda>(stackLines, i). length stackLines - i)") auto

declare firstRelevantFrame.simps [simp del]

definition capture_stack :: "string option \<Rightarrow> string" where
  "capture_stack st =
     (let stackLines = split_nl (case st of None \<Rightarrow> [] | Some s \<Rightarrow> s)
      in join_nl (drop (firstRelevantFrame stackLines 1) stackLines))"

text \<open>
  The factories \<open>Ok\<close> and \<open>Err\<close> call \<open>new\<close>, so each returns a container of a
  fresh identity.  (The \<open>instanceof\<close> guard in the constructors never fires under
  \<open>new\<close>; the temporary \<open>Error\<close> whose stack is read is dropped at once and gets
  no identity here.)
\<close>

definition Ok :: "jsval \<Rightarrow> 'u world \<Rightarrow> result \<times> 'u world" where
  "Ok v w = (OkImpl (nextRef w) v, w\<lparr>nextRef := Suc (nextRef w)\<rparr>)"

definition Err :: "jsval \<Rightarrow> 'u world \<Rightarrow> result \<times> 'u world" where
  "Err v w =
     (ErrImpl (nextRef w) (capture_stack (errorStack w)) v, w\<lparr>nextRef := Suc (nextRef w)\<rparr>)"

subsection \<open>Inspection\<close>

fun isOk :: "result \<Rightarrow> bool" where
  "isOk (OkImpl r v) = True"
| "isOk (ErrImpl r st e) = False"

fun isOkAnd :: "result \<Rightarrow> (jsval \<Rightarrow> (bool, 'u) js) \<Rightarrow> (bool, 'u) js" where
  "isOkAnd (OkImpl r v) fn = fn v"
| "isOkAnd (ErrImpl r st e) fn = (\<lambda>w. (Inr False, w))"

fun isErr :: "result \<Rightarrow> bool" where
  "isErr (OkImpl r v) = False"
| "isErr (ErrImpl r st e) = True"

fun isErrAnd :: "result \<Rightarrow> (jsval \<Rightarrow> (bool, 'u) js) \<Rightarrow> (bool, 'u) js" where
  "isErrAnd (OkImpl r v) fn = (\<lambda>w. (Inr False, w))"
| "isErrAnd (ErrImpl r st e) fn = fn e"

fun ok :: "result \<Rightarrow> jsval" where
  "ok (OkImpl r v) = v"
| "ok (ErrImpl r st e) = JUndefined"

fun err :: "result \<Rightarrow> jsval" where
  "err (OkImpl r v) = JUndefined"
| "err (ErrImpl r st e) = e"

subsection \<open>Transformation and chaining\<close>

text \<open>
  \<open>map\<close> on an \<open>Ok\<close> is \<open>Ok(fn(value))\<close>: the callback runs first, and what it
  throws passes through; \<open>mapErr\<close> on an \<open>Err\<close> likewise builds a new \<open>Err\<close>.
  The other variant returns \<open>this\<close>.
\<close>

fun map_res :: "result \<Rightarrow> (jsval \<Rightarrow> (jsval, 'u) js) \<Rightarrow> (result, 'u) js" where
  "map_res (OkImpl r v) fn =
     (\<lambda>w. case fn v w of
            (Inl thrown, w') \<Rightarrow> (Inl thrown, w')
          | (Inr u, w') \<Rightarrow> (case Ok u w' of (c, w'') \<Rightarrow> (Inr c, w'')))"
| "map_res (ErrImpl r st e) fn = (\<lambda>w. (Inr (ErrImpl r st e), w))"

fun mapErr :: "result \<Rightarrow> (jsval \<Rightarrow> (jsval, 'u) js) \<Rightarrow> (result, 'u) js" where
  "mapErr (OkImpl r v) fn = (\<lambda>w. (Inr (OkImpl r v), w))"
| "mapErr (ErrImpl r st e) fn =
     (\<lambda>w. case fn e w of
            (Inl thrown, w') \<Rightarrow> (Inl thrown, w')
          | (Inr f, w') \<Rightarrow> (case Err f w' of (c, w'') \<Rightarrow> (Inr c, w'')))"

fun and_res :: "result \<Rightarrow> result \<Rightarrow> result" where
  "and_res (OkImpl r v) res = res"
| "and_res (ErrImpl r st e) res = ErrImpl r st e"

fun andThen :: "result \<Rightarrow> (jsval \<Rightarrow> (result, 'u) js) \<Rightarrow> (result, 'u) js" where
  "andThen (OkImpl r v) fn = fn v"
| "andThen (ErrImpl r st e) fn = (\<lambda>w. (Inr (ErrImpl r st e), w))"

fun or_res :: "result \<Rightarrow> result \<Rightarrow> result" where
  "or_res (OkImpl r v) res = OkImpl r v"
| "or_res (ErrImpl r st e) res = res"

fun orElse :: "result \<Rightarrow> (jsval \<Rightarrow> (result, 'u) js) \<Rightarrow> (result, 'u) js" where
  "orElse (OkImpl r v) fn = (\<lambda>w. (Inr (OkImpl r v), w))"
| "orElse (ErrImpl r st e) fn = fn e"

fun unwrapOr :: "result \<Rightarrow> jsval \<Rightarrow> jsval" where
  "unwrapOr (OkImpl r v) defaultValue = v"
| "unwrapOr (ErrImpl r st e) defaultValue = defaultValue"

fun unwrapOrElse :: "result \<Rightarrow> (jsval \<Rightarrow> (jsval, 'u) js) \<Rightarrow> (jsval, 'u) js" where
  "unwrapOrElse (OkImpl r v) fn = (\<lambda>w. (Inr v, w))"
| "unwrapOrElse (ErrImpl r st e) fn = fn e"

subsection \<open>The unwrap family\<close>

text \<open>
  \<open>toString\<close> comes from \<open>utils.ts\<close>, which is not among the sources: it is a
  parameter, any function from values to text.  The failing branches run
  \<open>throw new Error(...)\<close> with a template string.
\<close>

fun expect :: "(jsval \<Rightarrow> string) \<Rightarrow> result \<Rightarrow> string \<Rightarrow> (jsval, 'u) js" where
  "expect toString (OkImpl r v) message = (\<lambda>w. (Inr v, w))"
| "expect toString (ErrImpl r st e) message =
     throw_new_Error (message @ '': '' @ toString e @ ''\<newline>'' @ st)"

fun unwrap :: "(jsval \<Rightarrow> string) \<Rightarrow> result \<Rightarrow> (jsval, 'u) js" where
  "unwrap toString (OkImpl r v) = (\<lambda>w. (Inr v, w))"
| "unwrap toString (ErrImpl r st e) =
     throw_new_Error (''Tried to unwrap Error: '' @ toString e @ ''\<newline>'' @ st)"

fun expectErr :: "(jsval \<Rightarrow> string) \<Rightarrow> result \<Rightarrow> string \<Rightarrow> (jsval, 'u) js" where
  "expectErr toString (OkImpl r v) message = throw_new_Error (message @ '': '' @ toString v)"
| "expectErr toString (ErrImpl r st e) message = (\<lambda>w. (Inr e, w))"

fun unwrapErr :: "(jsval \<Rightarrow> string) \<Rightarrow> result \<Rightarrow> (jsval, 'u) js" where
  "unwrapErr toString (OkImpl r v) =
     throw_new_Error (''Tried to unwrap Ok value: '' @ toString v)"
| "unwrapErr toString (ErrImpl r st e) = (\<lambda>w. (Inr e, w))"

subsection \<open>The function-wrapping adapter\<close>

text \<open>
  The closure that \<open>wrapInResult(fn, errorTransform)\<close> returns, applied to an argument
  list.  Only the call of \<open>fn\<close> and the \<open>Ok\<close> around it stand inside \<open>try\<close>;
  the handler computes the error to store (by \<open>errorTransform\<close> when one is given, else
  the message of an instance of \<open>Error\<close>, else the caught value) and wraps it.
\<close>

fun instanceof_Error :: "jsval \<Rightarrow> bool" where
  "instanceof_Error (JError r message) = True"
| "instanceof_Error v = False"

text \<open>
  The member \<open>message\<close> of a value, when it has one: an \<open>Error\<close> has its message,
  a plain object has one when it has that key, nothing else in this universe does.  A
  member read that finds nothing gives \<open>undefined\<close>.
\<close>

fun message_field :: "jsval \<Rightarrow> jsval option" where
  "message_field (JError r message) = Some (JStr message)"
| "message_field (JObject r members) = map_of members ''message''"
| "message_field v = None"

definition read_message :: "jsval \<Rightarrow> jsval" where
  "read_message v = (case message_field v of Some m \<Rightarrow> m | None \<Rightarrow> JUndefined)"

definition wrapInResult ::
  "(jsval list \<Rightarrow> (jsval, 'u) js) \<Rightarrow> (jsval \<Rightarrow> (jsval, 'u) js) option \<Rightarrow>
   jsval list \<Rightarrow> (result, 'u) js" where
  "wrapInResult fn errorTransform args w =
     (case fn args w of
        (Inr returned, w1) \<Rightarrow> (case Ok returned w1 of (c, w2) \<Rightarrow> (Inr c, w2))
      | (Inl error, w1) \<Rightarrow>
          (case (case errorTransform of
                   Some transform \<Rightarrow> transform error w1
                 | None \<Rightarrow>
                     (Inr (if instanceof_Error error then read_message error else error), w1)) of
             (Inl thrown, w2) \<Rightarrow> (Inl thrown, w2)
           | (Inr transformedError, w2) \<Rightarrow>
               (case Err transformedError w2 of (c, w3) \<Rightarrow> (Inr c, w3))))"

subsection \<open>Iteration\<close>

text \<open>
  \<open>typeof\<close> as the language defines it, and what running
  \<open>v[Symbol.iterator]()\<close> to its end yields for the values that have that member
  (a primitive string through its wrapper object): an array its elements, a string its
  characters one by one (as the string type here has them); \<open>None\<close> for the
  values that lack the member.  The iterator a container returns is given by the list of
  what it yields; a call builds it anew.
\<close>

fun typeof :: "jsval \<Rightarrow> string" where
  "typeof JUndefined = ''undefined''"
| "typeof JNull = ''object''"
| "typeof (JBool b) = ''boolean''"
| "typeof (JNum n) = ''number''"
| "typeof (JStr s) = ''string''"
| "typeof (JArray r xs) = ''object''"
| "typeof (JObject r members) = ''object''"
| "typeof (JError r message) = ''object''"
| "typeof (JFunction r) = ''function''"

fun Symbol_iterator :: "jsval \<Rightarrow> jsval list option" where
  "Symbol_iterator (JArray r xs) = Some xs"
| "Symbol_iterator (JStr s) = Some (map (\<lambda>c. JStr [c]) s)"
| "Symbol_iterator v = None"

fun iterator :: "result \<Rightarrow> jsval list" where
  "iterator (OkImpl r v) =
     (if typeof v = ''object'' \<and> v \<noteq> JNull
      then (case Symbol_iterator v of Some xs \<Rightarrow> xs | None \<Rightarrow> [])
      else [])"
| "iterator (ErrImpl r st e) = []"

section \<open>Option (option.ts)\<close>

text \<open>
  \<open>Some(v)\<close> is \<open>new SomeImpl(v)\<close>; \<open>None\<close> is the one instance of
  \<open>SomeNone\<close> the module makes when it loads, which the constructor without an
  identity stands for.
\<close>

datatype js_option =
    SomeImpl ref jsval
  | SomeNone

definition Some_opt :: "jsval \<Rightarrow> 'u world \<Rightarrow> js_option \<times> 'u world" where
  "Some_opt v w = (SomeImpl (nextRef w) v, w\<lparr>nextRef := Suc (nextRef w)\<rparr>)"

definition None_opt :: js_option where
  "None_opt = SomeNone"

fun Option_expect :: "js_option \<Rightarrow> string \<Rightarrow> (jsval, 'u) js" where
  "Option_expect (SomeImpl r v) message = (\<lambda>w. (Inr v, w))"
| "Option_expect SomeNone message = throw_new_Error message"

fun Option_unwrap :: "js_option \<Rightarrow> (jsval, 'u) js" where
  "Option_unwrap (SomeImpl r v) = (\<lambda>w. (Inr v, w))"
| "Option_unwrap SomeNone = throw_new_Error ''Tried to unwrap None''"

fun Option_unwrapOr :: "js_option \<Rightarrow> jsval \<Rightarrow> jsval" where
  "Option_unwrapOr (SomeImpl r v) defaultValue = v"
| "Option_unwrapOr SomeNone defaultValue = defaultValue"

section \<open>Result, earlier revision (result.ts)\<close>

text \<open>
  The earlier classes hold the same fields.  Their \<open>ok\<close> and \<open>err\<close> answer with an
  \<open>Option\<close>, and their iterator asks \<open>Object(value)\<close> for the member, so it also
  finds the one of a primitive string.
\<close>

datatype result_early =
    OkImpl_early ref jsval
  | ErrImpl_early ref string jsval

fun ok_early :: "result_early \<Rightarrow> 'u world \<Rightarrow> js_option \<times> 'u world" where
  "ok_early (OkImpl_early r v) w = Some_opt v w"
| "ok_early (ErrImpl_early r st e) w = (None_opt, w)"

fun err_early :: "result_early \<Rightarrow> 'u world \<Rightarrow> js_option \<times> 'u world" where
  "err_early (OkImpl_early r v) w = (None_opt, w)"
| "err_early (ErrImpl_early r st e) w = Some_opt e w"

fun iterator_early :: "result_early \<Rightarrow> jsval list" where
  "iterator_early (OkImpl_early r v) =
     (case Symbol_iterator v of Some xs \<Rightarrow> xs | None \<Rightarrow> [])"
| "iterator_early (ErrImpl_early r st e) = []"

section \<open>Cloning\<close>

text \<open>
  \<open>structuredClone\<close> is the platform's deep copy, not code of the library: it is a
  parameter, a call that returns the copy or throws.  \<open>cloned\<close> on an \<open>Ok\<close> wraps
  the copy in a new \<open>Ok\<close>; when the copy throws it warns on the console with the
  value and what was thrown, and returns \<open>this\<close>.  On an \<open>Err\<close> it returns
  \<open>this\<close>.
\<close>

fun cloned :: "(jsval \<Rightarrow> (jsval, 'u) js) \<Rightarrow> result \<Rightarrow> (result, 'u) js" where
  "cloned structuredClone (OkImpl r v) =
     (\<lambda>w. case structuredClone v w of
            (Inr clonedValue, w') \<Rightarrow> (case Ok clonedValue w' of (c, w'') \<Rightarrow> (Inr c, w''))
          | (Inl e, w') \<Rightarrow>
              (Inr (OkImpl r v),
               w'\<lparr>console := console w' @ [[JStr ''Failed to structuredClone Ok value:'', v, e]]\<rparr>))"
| "cloned structuredClone (ErrImpl r st e) = (\<lambda>w. (Inr (ErrImpl r st e), w))"

text \<open>
  The identities of the objects a value is made of, and the value with its identities
  forgotten.  Two values are structurally equal when they agree up to identities, and
  reference-distinct when no object belongs to both (a primitive holds no object).
\<close>

fun refs_of :: "jsval \<Rightarrow> ref list" where
  "refs_of (JArray r xs) = r # concat (map refs_of xs)"
| "refs_of (JObject r members) = r # concat (map (\<lambda>(k, v). refs_of v) members)"
| "refs_of (JError r message) = [r]"
| "refs_of (JFunction r) = [r]"
| "refs_of v = []"

fun erase :: "jsval \<Rightarrow> jsval" where
  "erase (JArray r xs) = JArray 0 (map erase xs)"
| "erase (JObject r members) = JObject 0 (map (\<lambda>(k, v). (k, erase v)) members)"
| "erase (JError r message) = JError 0 message"
| "erase (JFunction r) = JFunction 0"
| "erase v = v"

definition structurally_equal :: "jsval \<Rightarrow> jsval \<Rightarrow> bool" where
  "structurally_equal a b = (erase a = erase b)"

definition reference_distinct :: "jsval \<Rightarrow> jsval \<Rightarrow> bool" where
  "reference_distinct a b = (set (refs_of a) \<inter> set (refs_of b) = {})"

text \<open>
  What the library relies on from the platform: where the deep copy returns, on a value
  whose objects the allocator has handed out, the copy is structurally equal to the
  value and made of objects allocated during the call.
\<close>

definition deep_copy :: "(jsval \<Rightarrow> (jsval, 'u) js) \<Rightarrow> bool" where
  "deep_copy structuredClone =
     (\<forall>v w v' w'. set (refs_of v) \<subseteq> {..<nextRef w} \<and> structuredClone v w = (Inr v', w') \<longrightarrow>
        structurally_equal v v' \<and> set (refs_of v') \<subseteq> {nextRef w..<nextRef w'} \<and>
        nextRef w \<le> nextRef w')"

text \<open>
  A deep copy to run \<open>cloned\<close> with: it rebuilds arrays, plain objects and errors from
  fresh identities, keeps primitives, and gives up on a function, as the platform's does
  with its \<open>DataCloneError\<close>.
\<close>

fun clone_value :: "jsval \<Rightarrow> ref \<Rightarrow> (jsval \<times> ref) option"
  and clone_list :: "jsval list \<Rightarrow> ref \<Rightarrow> (jsval list \<times> ref) option"
  and clone_members ::
    "(string \<times> jsval) list \<Rightarrow> ref \<Rightarrow> ((string \<times> jsval) list \<times> ref) option"
where
  "clone_value (JArray r xs) n =
     (case clone_list xs (Suc n) of None \<Rightarrow> None | Some (ys, n') \<Rightarrow> Some (JArray n ys, n'))"
| "clone_value (JObject r members) n =
     (case clone_members members (Suc n) of
        None \<Rightarrow> None
      | Some (ms, n') \<Rightarrow> Some (JObject n ms, n'))"
| "clone_value (JError r message) n = Some (JError n message, Suc n)"
| "clone_value (JFunction r) n = None"
| "clone_value JUndefined n = Some (JUndefined, n)"
| "clone_value JNull n = Some (JNull, n)"
| "clone_value (JBool b) n = Some (JBool b, n)"
| "clone_value (JNum i) n = Some (JNum i, n)"
| "clone_value (JStr s) n = Some (JStr s, n)"
| "clone_list [] n = Some ([], n)"
| "clone_list (x # xs) n =
     (case clone_value x n of
        None \<Rightarrow> None
      | Some (y, n1) \<Rightarrow>
          (case clone_list xs n1 of None \<Rightarrow> None | Some (ys, n2) \<Rightarrow> Some (y # ys, n2)))"
| "clone_members [] n = Some ([], n)"
| "clone_members ((k, x) # ms) n =
     (case clone_value x n of
        None \<Rightarrow> None
      | Some (y, n1) \<Rightarrow>
          (case clone_members ms n1 of
             None \<Rightarrow> None
           | Some (ys, n2) \<Rightarrow> Some ((k, y) # ys, n2)))"

definition clone_tree :: "jsval \<Rightarrow> (jsval, 'u) js" where
  "clone_tree v w =
     (case clone_value v (nextRef w) of
        Some (v', n) \<Rightarrow> (Inr v', w\<lparr>nextRef := n\<rparr>)
      | None \<Rightarrow> throw_new_Error ''DataCloneError'' w)"

section \<open>Sample clients\<close>

text \<open>
  \<open>throwing x\<close> is \<open>() => { throw x }\<close>, \<open>returning x\<close> is \<open>() => x\<close>;
  \<open>rethrow\<close> is the one-argument callback \<open>(e) => { throw e }\<close> and \<open>always x\<close>
  is \<open>(_) => x\<close>.  \<open>idle_world n\<close> is a world whose objects so far have the
  identities below \<open>n\<close>, on an engine that gives no stack text.
\<close>

definition throwing :: "jsval \<Rightarrow> jsval list \<Rightarrow> (jsval, 'u) js" where
  "throwing x args w = (Inl x, w)"

definition returning :: "jsval \<Rightarrow> jsval list \<Rightarrow> (jsval, 'u) js" where
  "returning x args w = (Inr x, w)"

definition rethrow :: "jsval \<Rightarrow> (jsval, 'u) js" where
  "rethrow e w = (Inl e, w)"

definition always :: "jsval \<Rightarrow> jsval \<Rightarrow> (jsval, 'u) js" where
  "always x e w = (Inr x, w)"

definition idle_world :: "ref \<Rightarrow> unit world" where
  "idle_world n = \<lparr>nextRef = n, errorStack = None, console = [], user = ()\<rparr>"

section \<open>Variant predicates\<close>

text \<open>
  C7.  A container made by \<open>Ok\<close> answers \<open>isOk\<close> with true and \<open>isErr\<close> with
  false, one made by \<open>Err\<close> the other way round.  \<open>isOkAnd\<close> on an \<open>Ok\<close> is the
  call of the predicate on the value, with whatever that call does; on an \<open>Err\<close> it is
  false and leaves the world as it was for every predicate, also one that throws or
  counts its calls: the predicate is not invoked.  \<open>isErrAnd\<close> is the mirror image.
\<close>

theorem variant_predicates:
  "isOk (fst (Ok v w)) \<and> \<not> isErr (fst (Ok v w)) \<and>
   isErr (fst (Err e w)) \<and> \<not> isOk (fst (Err e w)) \<and>
   isOkAnd (fst (Ok v w)) p w' = p v w' \<and>
   isOkAnd (fst (Err e w)) p w' = (Inr False, w') \<and>
   isErrAnd (fst (Err e w)) p w' = p e w' \<and>
   isErrAnd (fst (Ok v w)) p w' = (Inr False, w')"
  by (simp add: Ok_def Err_def)

section \<open>The origin trace\<close>

text \<open>
  On a stack text as V8 writes it, the constructor drops the heading line and the frames
  of \<open>new ErrImpl\<close> and \<open>Err\<close>; the trace starts at the caller's frame.
\<close>

lemma capture_stack_v8:
  "capture_stack (Some (''Error\<newline>'' @
      ''    at new ErrImpl (result.ts:555:25)\<newline>'' @
      ''    at Err (result.ts:696:52)\<newline>'' @
      ''    at divide (main.ts:9:12)\<newline>'' @
      ''    at main.ts:15:1''))
   = ''    at divide (main.ts:9:12)\<newline>    at main.ts:15:1''"
  by code_simp

lemma capture_stack_absent: "capture_stack None = []"
  by code_simp

text \<open>
  The loop of the constructor, from any start: it moves forward over lines that are
  non-empty and mention \<open>ErrImpl\<close> or \<open> Err \<close>, over nothing else, and where it
  stops inside the text the line is empty or mentions neither.
\<close>

lemma firstRelevantFrame_skips_own_frames:
  "i \<le> firstRelevantFrame ls i \<and>
   (\<forall>j. i \<le> j \<and> j < firstRelevantFrame ls i \<longrightarrow>
      j < length ls \<and> ls ! j \<noteq> [] \<and>
      (str_includes (ls ! j) ''ErrImpl'' \<or> str_includes (ls ! j) '' Err '')) \<and>
   (firstRelevantFrame ls i < length ls \<longrightarrow>
      ls ! firstRelevantFrame ls i = [] \<or>
      \<not> (str_includes (ls ! firstRelevantFrame ls i) ''ErrImpl'' \<or>
         str_includes (ls ! firstRelevantFrame ls i) '' Err ''))"
proof (induction ls i rule: firstRelevantFrame.induct)
  case (1 stackLines i)
  show ?case
  proof (cases "i < length stackLines \<and> stackLines ! i \<noteq> [] \<and>
         (str_includes (stackLines ! i) ''ErrImpl'' \<or> str_includes (stackLines ! i) '' Err '')")
    case True
    then have step: "firstRelevantFrame stackLines i = firstRelevantFrame stackLines (Suc i)"
      by (subst firstRelevantFrame.simps) simp
    from "1.IH" [OF True] have IH:
      "Suc i \<le> firstRelevantFrame stackLines (Suc i)"
      "\<And>j. Suc i \<le> j \<Longrightarrow> j < firstRelevantFrame stackLines (Suc i) \<Longrightarrow>
         j < length stackLines \<and> stackLines ! j \<noteq> [] \<and>
         (str_includes (stackLines ! j) ''ErrImpl'' \<or> str_includes (stackLines ! j) '' Err '')"
      "firstRelevantFrame stackLines (Suc i) < length stackLines \<longrightarrow>
         stackLines ! firstRelevantFrame stackLines (Suc i) = [] \<or>
         \<not> (str_includes (stackLines ! firstRelevantFrame stackLines (Suc i)) ''ErrImpl'' \<or>
            str_includes (stackLines ! firstRelevantFrame stackLines (Suc i)) '' Err '')"
      by blast+
    have "j < length stackLines \<and> stackLines ! j \<noteq> [] \<and>
         (str_includes (stackLines ! j) ''ErrImpl'' \<or> str_includes (stackLines ! j) '' Err '')"
      if "i \<le> j" "j < firstRelevantFrame stackLines (Suc i)" for j
    proof (cases "j = i")
      case True
      with \<open>i < length stackLines \<and> _\<close> show ?thesis by simp
    next
      case False
      with that have "Suc i \<le> j" by simp
      with IH(2) that show ?thesis by blast
    qed
    with IH(1,3) show ?thesis unfolding step by auto
  next
    case False
    then have stop: "firstRelevantFrame stackLines i = i"
      by (subst firstRelevantFrame.simps) auto
    with False show ?thesis by auto
  qed
qed

lemma firstRelevantFrame_skips_own_frames_witness:
  "firstRelevantFrame
     [''Error'', ''    at new ErrImpl (result.ts:555:25)'', ''    at Err (result.ts:696:52)'',
      ''    at divide (main.ts:9:12)''] 1 = 3 \<and>
   str_includes ''    at new ErrImpl (result.ts:555:25)'' ''ErrImpl'' \<and>
   str_includes ''    at Err (result.ts:696:52)'' '' Err '' \<and>
   \<not> str_includes ''    at divide (main.ts:9:12)'' ''ErrImpl'' \<and>
   \<not> str_includes ''    at divide (main.ts:9:12)'' '' Err ''"
proof -
  let ?ls = "[''Error'', ''    at new ErrImpl (result.ts:555:25)'',
      ''    at Err (result.ts:696:52)'', ''    at divide (main.ts:9:12)'']"
  have stop: "firstRelevantFrame ?ls 1 = 3"
    by code_simp
  have own: "str_includes ''    at new ErrImpl (result.ts:555:25)'' ''ErrImpl''"
    "str_includes ''    at Err (result.ts:696:52)'' '' Err ''"
    by code_simp+
  from firstRelevantFrame_skips_own_frames [of 1 ?ls] stop own show ?thesis
    by simp
qed

section \<open>The unwrap family raises on the other variant\<close>

text \<open>
  C1.  On an \<open>Ok\<close>, \<open>expect\<close> and \<open>unwrap\<close> return the value and leave the world
  alone; on an \<open>Err\<close> they throw a new \<open>Error\<close> whose message is
  \<open>m: toString(error)\<close>, respectively \<open>Tried to unwrap Error: toString(error)\<close>,
  then a line break and the trace stored in the container.  \<open>expectErr\<close> and
  \<open>unwrapErr\<close> return the error of an \<open>Err\<close> and throw on an \<open>Ok\<close>, with
  \<open>m: toString(value)\<close>, respectively \<open>Tried to unwrap Ok value: toString(value)\<close>,
  and no trace.  Each of the four throws exactly on the variant named.  The trace of a
  container made by \<open>Err\<close> is the one captured from the stack text at its making.
\<close>

theorem unwrap_family:
  "(case r of
      OkImpl i v \<Rightarrow>
        expect toString r m w = (Inr v, w) \<and>
        unwrap toString r w = (Inr v, w) \<and>
        expectErr toString r m w =
          (Inl (JError (nextRef w) (m @ '': '' @ toString v)), w\<lparr>nextRef := Suc (nextRef w)\<rparr>) \<and>
        unwrapErr toString r w =
          (Inl (JError (nextRef w) (''Tried to unwrap Ok value: '' @ toString v)),
           w\<lparr>nextRef := Suc (nextRef w)\<rparr>)
    | ErrImpl i trace e \<Rightarrow>
        expect toString r m w =
          (Inl (JError (nextRef w) (m @ '': '' @ toString e @ ''\<newline>'' @ trace)),
           w\<lparr>nextRef := Suc (nextRef w)\<rparr>) \<and>
        unwrap toString r w =
          (Inl (JError (nextRef w) (''Tried to unwrap Error: '' @ toString e @ ''\<newline>'' @ trace)),
           w\<lparr>nextRef := Suc (nextRef w)\<rparr>) \<and>
        expectErr toString r m w = (Inr e, w) \<and>
        unwrapErr toString r w = (Inr e, w)) \<and>
   isl (fst (expect toString r m w)) = isErr r \<and>
   isl (fst (unwrap toString r w)) = isErr r \<and>
   isl (fst (expectErr toString r m w)) = isOk r \<and>
   isl (fst (unwrapErr toString r w)) = isOk r \<and>
   fst (Err e0 w0) = ErrImpl (nextRef w0) (capture_stack (errorStack w0)) e0"
  by (cases r) (simp_all add: throw_new_Error_def new_Error_def Err_def)

section \<open>Short-circuit of the and-chain\<close>

text \<open>
  C4.  \<open>r.and(o)\<close> is \<open>o\<close> itself when \<open>r\<close> is an \<open>Ok\<close>, whatever variant
  \<open>o\<close> is, and \<open>r\<close> itself when \<open>r\<close> is an \<open>Err\<close>.  \<open>r.andThen(fn)\<close> is the
  call \<open>fn(value)\<close> on an \<open>Ok\<close>; on an \<open>Err\<close> it returns \<open>r\<close> itself and
  leaves the world as it was for every \<open>fn\<close>: the callback is not invoked.
\<close>

theorem and_chain_short_circuit:
  "and_res r other = (if isOk r then other else r) \<and>
   andThen r fn w = (if isOk r then fn (ok r) w else (Inr r, w))"
  by (cases r) simp_all

section \<open>Map laws\<close>

text \<open>
  C5.  Mapping the identity over \<open>Ok(v)\<close> gives an \<open>Ok\<close> that holds the same
  \<open>v\<close> (in a container of its own).  \<open>Err(e).map(f)\<close> returns that very container,
  its error still \<open>e\<close>, and leaves the world as it was for every \<open>f\<close>: the callback
  is not invoked.  \<open>Ok(v).mapErr(f)\<close> returns that very container in the same way.
\<close>

theorem map_laws:
  "map_res (fst (Ok v w)) (\<lambda>x s. (Inr x, s)) w'
     = (Inr (OkImpl (nextRef w') v), w'\<lparr>nextRef := Suc (nextRef w')\<rparr>) \<and>
   ok (OkImpl (nextRef w') v) = ok (fst (Ok v w)) \<and>
   isOk (OkImpl (nextRef w') v) = isOk (fst (Ok v w)) \<and>
   map_res (fst (Err e w)) f w' = (Inr (fst (Err e w)), w') \<and>
   err (fst (Err e w)) = e \<and>
   mapErr (fst (Ok v w)) f w' = (Inr (fst (Ok v w)), w')"
  by (simp add: Ok_def Err_def)

section \<open>The or-chain and the defaults\<close>

text \<open>
  \<open>r.or(o)\<close> and \<open>r.orElse(fn)\<close> return \<open>r\<close> itself on an \<open>Ok\<close>, and
  \<open>o\<close>, respectively the call \<open>fn(error)\<close>, on an \<open>Err\<close>.  \<open>unwrapOr(d)\<close>
  returns the value or \<open>d\<close> as it is; \<open>unwrapOrElse(fn)\<close> returns the value with
  the world untouched on an \<open>Ok\<close> and is the one call \<open>fn(error)\<close> on an \<open>Err\<close>.
\<close>

lemma or_chain_and_defaults:
  "or_res r other = (if isOk r then r else other) \<and>
   orElse r fn w = (if isOk r then (Inr r, w) else fn (err r) w) \<and>
   unwrapOr r d = (if isOk r then ok r else d) \<and>
   unwrapOrElse r g w = (if isOk r then (Inr (ok r), w) else g (err r) w)"
  by (cases r) simp_all

section \<open>The function-wrapping adapter\<close>

text \<open>
  C2, as stated, fails where the caught value carries a message field without being an
  instance of \<open>Error\<close>: a thrown plain object \<open>{message: "boom"}\<close> is stored as it
  is, not as the text \<open>boom\<close>.
\<close>

theorem wrapInResult_message_field_counterexample:
  "message_field (JObject 0 [(''message'', JStr ''boom'')]) = Some (JStr ''boom'') \<and>
   fst (wrapInResult (throwing (JObject 0 [(''message'', JStr ''boom'')])) None [] (idle_world 1))
     = Inr (ErrImpl 1 [] (JObject 0 [(''message'', JStr ''boom'')])) \<and>
   err (ErrImpl 1 [] (JObject 0 [(''message'', JStr ''boom'')])) \<noteq> JStr ''boom''"
  by (simp add: wrapInResult_def throwing_def idle_world_def Err_def capture_stack_absent)

text \<open>
  C2, amended.  When \<open>fn\<close> returns, the call yields \<open>Ok\<close> of what it returned.  When
  \<open>fn\<close> throws and an \<open>errorTransform\<close> is given that returns on the caught value,
  it yields \<open>Err\<close> of what the transform returned.  With no transform it yields
  \<open>Err\<close> of the message when the caught value is an instance of \<open>Error\<close>, and
  \<open>Err\<close> of the caught value itself in every other case, also when that value is an
  object with a message field; so a thrown bare string \<open>boom\<close> comes back as
  \<open>Err("boom")\<close>.
\<close>

theorem wrapInResult_outcomes:
  "(fn args w = (Inr x, w1) \<longrightarrow>
      wrapInResult fn et args w = (Inr (fst (Ok x w1)), snd (Ok x w1))) \<and>
   (fn args w = (Inl thrown, w1) \<and> t thrown w1 = (Inr e', w2) \<longrightarrow>
      wrapInResult fn (Some t) args w = (Inr (fst (Err e' w2)), snd (Err e' w2))) \<and>
   (fn args w = (Inl (JError r message), w1) \<longrightarrow>
      wrapInResult fn None args w = (Inr (fst (Err (JStr message) w1)), snd (Err (JStr message) w1))) \<and>
   (fn args w = (Inl thrown, w1) \<and> \<not> instanceof_Error thrown \<longrightarrow>
      wrapInResult fn None args w = (Inr (fst (Err thrown w1)), snd (Err thrown w1))) \<and>
   wrapInResult (throwing (JStr ''boom'')) None args w
     = (Inr (fst (Err (JStr ''boom'') w)), snd (Err (JStr ''boom'') w))"
  by (auto simp: wrapInResult_def throwing_def read_message_def split: prod.splits)

theorem wrapInResult_outcomes_witness:
  "wrapInResult (returning (JNum 5)) None [JNum 10, JNum 2] (idle_world 0)
     = (Inr (OkImpl 0 (JNum 5)), idle_world 1) \<and>
   wrapInResult (throwing (JError 0 ''cannot divide by zero'')) (Some (always (JNum 500)))
       [JNum 10, JNum 0] (idle_world 1)
     = (Inr (ErrImpl 1 [] (JNum 500)), idle_world 2) \<and>
   wrapInResult (throwing (JError 0 ''cannot divide by zero'')) None [JNum 10, JNum 0] (idle_world 1)
     = (Inr (ErrImpl 1 [] (JStr ''cannot divide by zero'')), idle_world 2) \<and>
   wrapInResult (throwing (JObject 0 [(''message'', JStr ''boom'')])) None [] (idle_world 1)
     = (Inr (ErrImpl 1 [] (JObject 0 [(''message'', JStr ''boom'')])), idle_world 2) \<and>
   wrapInResult (throwing (JStr ''boom'')) None [] (idle_world 0)
     = (Inr (ErrImpl 0 [] (JStr ''boom'')), idle_world 1)"
  using
    wrapInResult_outcomes [where fn = "returning (JNum 5)" and args = "[JNum 10, JNum 2]"
      and w = "idle_world 0" and x = "JNum 5" and ?w1.0 = "idle_world 0" and et = None]
    wrapInResult_outcomes [where fn = "throwing (JError 0 ''cannot divide by zero'')"
      and args = "[JNum 10, JNum 0]" and w = "idle_world 1"
      and thrown = "JError 0 ''cannot divide by zero''" and ?w1.0 = "idle_world 1"
      and t = "always (JNum 500)" and e' = "JNum 500" and ?w2.0 = "idle_world 1"
      and r = 0 and message = "''cannot divide by zero''"]
    wrapInResult_outcomes [where fn = "throwing (JObject 0 [(''message'', JStr ''boom'')])"
      and args = "[]" and w = "idle_world 1"
      and thrown = "JObject 0 [(''message'', JStr ''boom'')]" and ?w1.0 = "idle_world 1"]
    wrapInResult_outcomes [where args = "[]" and w = "idle_world 0"]
  by (simp add: returning_def throwing_def always_def idle_world_def Ok_def Err_def
      capture_stack_absent)

text \<open>
  C10.  The transform runs in the handler, outside \<open>try\<close>: when \<open>fn\<close> throws and
  the transform throws on the caught value, the call itself throws what the transform
  threw and returns no container.
\<close>

theorem errorTransform_outside_try:
  "fn args w = (Inl thrown, w1) \<Longrightarrow> transform thrown w1 = (Inl thrown', w2) \<Longrightarrow>
   wrapInResult fn (Some transform) args w = (Inl thrown', w2)"
  by (simp add: wrapInResult_def)

theorem errorTransform_outside_try_witness:
  "throwing (JStr ''boom'') [] (idle_world 0) = (Inl (JStr ''boom''), idle_world 0) \<and>
   rethrow (JStr ''boom'') (idle_world 0) = (Inl (JStr ''boom''), idle_world 0) \<and>
   wrapInResult (throwing (JStr ''boom'')) (Some rethrow) [] (idle_world 0)
     = (Inl (JStr ''boom''), idle_world 0)"
proof -
  have f: "throwing (JStr ''boom'') [] (idle_world 0) = (Inl (JStr ''boom''), idle_world 0)"
    by (simp add: throwing_def)
  have t: "rethrow (JStr ''boom'') (idle_world 0) = (Inl (JStr ''boom''), idle_world 0)"
    by (simp add: rethrow_def)
  from errorTransform_outside_try [where fn = "throwing (JStr ''boom'')" and args = "[]"
      and w = "idle_world 0" and transform = rethrow, OF f t] f t
  show ?thesis by simp
qed

section \<open>The Option unwrap family\<close>

text \<open>
  C8.  On \<open>Some(v)\<close>, \<open>unwrap\<close>, \<open>expect\<close> and \<open>unwrapOr\<close> return \<open>v\<close>.  On
  \<open>None\<close>, \<open>unwrap\<close> throws a new \<open>Error\<close> with the message
  \<open>Tried to unwrap None\<close>, \<open>expect(m)\<close> one whose message is \<open>m\<close> and nothing
  more, and \<open>unwrapOr(d)\<close> returns \<open>d\<close>.
\<close>

theorem option_unwrap_family:
  "Option_unwrap (fst (Some_opt v w)) w' = (Inr v, w') \<and>
   Option_expect (fst (Some_opt v w)) m w' = (Inr v, w') \<and>
   Option_unwrapOr (fst (Some_opt v w)) d = v \<and>
   Option_unwrap None_opt w' =
     (Inl (JError (nextRef w') ''Tried to unwrap None''), w'\<lparr>nextRef := Suc (nextRef w')\<rparr>) \<and>
   Option_expect None_opt m w' = (Inl (JError (nextRef w') m), w'\<lparr>nextRef := Suc (nextRef w')\<rparr>) \<and>
   Option_unwrapOr None_opt d = d"
  by (simp add: Some_opt_def None_opt_def throw_new_Error_def new_Error_def)

section \<open>The two revisions of \<open>ok\<close> and \<open>err\<close>\<close>

text \<open>
  C9.  In the earlier revision \<open>ok\<close> of an \<open>Ok\<close> is \<open>Some(value)\<close> and of an
  \<open>Err\<close> the shared \<open>None\<close>; \<open>err\<close> of an \<open>Err\<close> is \<open>Some(error)\<close> and of
  an \<open>Ok\<close> the shared \<open>None\<close>.  In the later revision \<open>ok\<close> of an \<open>Ok\<close> is the
  value itself and of an \<open>Err\<close> \<open>undefined\<close>; \<open>err\<close> of an \<open>Err\<close> is the
  error itself and of an \<open>Ok\<close> \<open>undefined\<close>.  The later answer is the earlier one
  unwrapped with \<open>undefined\<close> as the fallback.
\<close>

theorem ok_err_revisions:
  "ok_early (OkImpl_early i v) w = Some_opt v w \<and>
   ok_early (ErrImpl_early i trace e) w = (None_opt, w) \<and>
   err_early (ErrImpl_early i trace e) w = Some_opt e w \<and>
   err_early (OkImpl_early i v) w = (None_opt, w) \<and>
   ok (fst (Ok v w)) = v \<and>
   ok (fst (Err e w)) = JUndefined \<and>
   err (fst (Err e w)) = e \<and>
   err (fst (Ok v w)) = JUndefined \<and>
   ok (OkImpl i v) = Option_unwrapOr (fst (ok_early (OkImpl_early i v) w)) JUndefined \<and>
   ok (ErrImpl i trace e) = Option_unwrapOr (fst (ok_early (ErrImpl_early i trace e) w)) JUndefined \<and>
   err (OkImpl i v) = Option_unwrapOr (fst (err_early (OkImpl_early i v) w)) JUndefined \<and>
   err (ErrImpl i trace e) = Option_unwrapOr (fst (err_early (ErrImpl_early i trace e) w)) JUndefined"
  by (simp add: Ok_def Err_def Some_opt_def None_opt_def)

section \<open>Iteration\<close>

text \<open>
  What iteration does where it works as documented: an array inside an \<open>Ok\<close> gives
  its elements in order, a number or a plain object gives nothing, and an \<open>Err\<close>
  gives nothing whatever it holds.
\<close>

lemma iterator_documented_cases:
  "iterator (OkImpl r (JArray a xs)) = xs \<and>
   iterator (OkImpl r (JNum n)) = [] \<and>
   iterator (OkImpl r (JObject a members)) = [] \<and>
   iterator (ErrImpl r st e) = []"
  by simp

text \<open>
  C3.  A string is iterable, and the tests of the later revision expect
  \<open>[...Ok("abc")]\<close> to be \<open>["a", "b", "c"]\<close>.  The later iterator first asks
  \<open>typeof value === 'object'\<close>, which a primitive string fails, and yields nothing;
  the earlier revision yields the three characters.
\<close>

theorem iterator_skips_string:
  "iterator (OkImpl 0 (JStr ''abc'')) = [] \<and>
   Symbol_iterator (JStr ''abc'') = Some [JStr ''a'', JStr ''b'', JStr ''c''] \<and>
   iterator_early (OkImpl_early 0 (JStr ''abc'')) = [JStr ''a'', JStr ''b'', JStr ''c'']"
  by simp

section \<open>Cloning\<close>

lemma clone_spec:
  "clone_value v n = Some (v', n') \<longrightarrow>
     erase v' = erase v \<and> set (refs_of v') \<subseteq> {n..<n'} \<and> n \<le> n'"
  "clone_list xs n = Some (ys, n') \<longrightarrow>
     map erase ys = map erase xs \<and> set (concat (map refs_of ys)) \<subseteq> {n..<n'} \<and> n \<le> n'"
  "clone_members ms n = Some (ms', n') \<longrightarrow>
     map (\<lambda>(k, v). (k, erase v)) ms' = map (\<lambda>(k, v). (k, erase v)) ms \<and>
     set (concat (map (\<lambda>(k, v). refs_of v) ms')) \<subseteq> {n..<n'} \<and> n \<le> n'"
proof (induction v n and xs n and ms n arbitrary: v' n' and ys n' and ms' n'
    rule: clone_value_clone_list_clone_members.induct)
  case (1 r xs n)
  then show ?case by (fastforce split: option.splits)
next
  case (2 r members n)
  then show ?case by (fastforce split: option.splits)
next
  case (11 x xs n)
  then show ?case by (fastforce split: option.splits)
next
  case (13 k x ms n)
  then show ?case by (fastforce split: option.splits)
qed auto

lemma deep_copy_clone_tree: "deep_copy clone_tree"
  unfolding deep_copy_def structurally_equal_def clone_tree_def
  using clone_spec(1)
  by (auto simp: throw_new_Error_def new_Error_def split: option.splits prod.splits)

text \<open>
  C6.  When the deep copy returns, \<open>cloned\<close> on an \<open>Ok\<close> returns an \<open>Ok\<close> that
  holds the copy; with a deep copy as the platform provides it, and a container and a
  value that exist in the world, that \<open>Ok\<close> is a new container and the copy is
  structurally equal to the value and shares no object with it.  When the deep copy
  throws, \<open>cloned\<close> does not: it returns the container it was called on and adds one
  warning to the console.  On an \<open>Err\<close> it returns the container it was called on,
  error included, and leaves the world as it was for every deep copy: none is made.
\<close>

theorem cloned_best_effort:
  "(structuredClone v w = (Inr v', w1) \<longrightarrow>
      cloned structuredClone (OkImpl r v) w
        = (Inr (OkImpl (nextRef w1) v'), w1\<lparr>nextRef := Suc (nextRef w1)\<rparr>)) \<and>
   (structuredClone v w = (Inr v', w1) \<and> deep_copy structuredClone \<and>
    r < nextRef w \<and> set (refs_of v) \<subseteq> {..<nextRef w} \<longrightarrow>
      OkImpl (nextRef w1) v' \<noteq> OkImpl r v \<and>
      structurally_equal v v' \<and> reference_distinct v v') \<and>
   (structuredClone v w = (Inl thrown, w1) \<longrightarrow>
      cloned structuredClone (OkImpl r v) w
        = (Inr (OkImpl r v),
           w1\<lparr>console := console w1 @
             [[JStr ''Failed to structuredClone Ok value:'', v, thrown]]\<rparr>)) \<and>
   cloned structuredClone (ErrImpl r st e) w = (Inr (ErrImpl r st e), w)"
proof -
  have fresh: "OkImpl (nextRef w1) v' \<noteq> OkImpl r v \<and>
      structurally_equal v v' \<and> reference_distinct v v'"
    if ret: "structuredClone v w = (Inr v', w1)" and dc: "deep_copy structuredClone"
      and r: "r < nextRef w" and v: "set (refs_of v) \<subseteq> {..<nextRef w}"
  proof -
    from dc v ret have eq: "structurally_equal v v'"
      and new: "set (refs_of v') \<subseteq> {nextRef w..<nextRef w1}"
      and mono: "nextRef w \<le> nextRef w1"
      unfolding deep_copy_def by blast+
    from r mono have "nextRef w1 \<noteq> r" by simp
    moreover from v new have "reference_distinct v v'"
      unfolding reference_distinct_def by fastforce
    ultimately show ?thesis using eq by simp
  qed
  show ?thesis
    using fresh by (simp add: Ok_def)
qed

theorem cloned_best_effort_witness:
  "cloned clone_tree (OkImpl 1 (JObject 0 [(''a'', JNum 1)])) (idle_world 2)
     = (Inr (OkImpl 3 (JObject 2 [(''a'', JNum 1)])), idle_world 4) \<and>
   OkImpl 3 (JObject 2 [(''a'', JNum 1)]) \<noteq> OkImpl 1 (JObject 0 [(''a'', JNum 1)]) \<and>
   structurally_equal (JObject 0 [(''a'', JNum 1)]) (JObject 2 [(''a'', JNum 1)]) \<and>
   reference_distinct (JObject 0 [(''a'', JNum 1)]) (JObject 2 [(''a'', JNum 1)]) \<and>
   cloned clone_tree (OkImpl 1 (JFunction 0)) (idle_world 2)
     = (Inr (OkImpl 1 (JFunction 0)),
        (idle_world 3)\<lparr>console :=
          [[JStr ''Failed to structuredClone Ok value:'', JFunction 0,
            JError 2 ''DataCloneError'']]\<rparr>) \<and>
   cloned clone_tree (ErrImpl 1 [] (JObject 0 [(''a'', JNum 1)])) (idle_world 2)
     = (Inr (ErrImpl 1 [] (JObject 0 [(''a'', JNum 1)])), idle_world 2)"
proof -
  have copy: "clone_tree (JObject 0 [(''a'', JNum 1)]) (idle_world 2)
      = (Inr (JObject 2 [(''a'', JNum 1)]), idle_world 3)"
    by (simp add: clone_tree_def idle_world_def)
  have fails: "clone_tree (JFunction 0) (idle_world 2)
      = (Inl (JError 2 ''DataCloneError''), idle_world 3)"
    by (simp add: clone_tree_def idle_world_def throw_new_Error_def new_Error_def)
  have world: "nextRef (idle_world 2) = 2" "nextRef (idle_world 3) = 3"
    "(idle_world 3)\<lparr>nextRef := 4\<rparr> = idle_world 4"
    "console (idle_world 3) = []"
    by (simp_all add: idle_world_def)
  have exists: "(1::nat) < 2" "set (refs_of (JObject 0 [(''a'', JNum 1)])) \<subseteq> {..<2}"
    by simp_all
  from
    cloned_best_effort [where structuredClone = clone_tree and v = "JObject 0 [(''a'', JNum 1)]"
      and w = "idle_world 2" and v' = "JObject 2 [(''a'', JNum 1)]" and ?w1.0 = "idle_world 3"
      and r = 1 and st = "[]" and e = "JObject 0 [(''a'', JNum 1)]"]
    cloned_best_effort [where structuredClone = clone_tree and v = "JFunction 0"
      and w = "idle_world 2" and thrown = "JError 2 ''DataCloneError''"
      and ?w1.0 = "idle_world 3" and r = 1]
    copy fails deep_copy_clone_tree exists
  show ?thesis by (auto simp: world)
qed

end
